theory Spec2Isabelle
  imports Complex_Main "HOL-Library.AList" "HOL-Library.Multiset" "HOL-Library.Product_Lexorder"
begin

section \<open>Values, exceptions and the outside world\<close>

text \<open>
  An embedding is the numpy array of shape \<open>(1, D)\<close> that \<open>TextEmbedder.embed_text\<close>
  returns. It is modelled by its single row, a list of exact reals: \<open>shape[1]\<close> is the
  length of the list and \<open>flatten().tolist()\<close> is the list itself.
\<close>

type_synonym vec = "real list"

text \<open>
  The Python exceptions the code meets. \<open>SystemExit\<close> derives from \<open>BaseException\<close>
  only; \<open>UnicodeDecodeError\<close> derives from \<open>ValueError\<close>; \<open>QdrantError\<close> stands for
  whatever the vector store's client raises.
\<close>

datatype exn =
    SystemExit string
  | ValueError string
  | UnicodeDecodeError
  | OSError string
  | KeyError string
  | TypeError string
  | IndexError string
  | QdrantError string
  | OtherException string

fun isinstance_Exception :: "exn \<Rightarrow> bool" where
  "isinstance_Exception (SystemExit _) = False"
| "isinstance_Exception _ = True"

fun isinstance_ValueError :: "exn \<Rightarrow> bool" where
  "isinstance_ValueError (ValueError _) = True"
| "isinstance_ValueError UnicodeDecodeError = True"
| "isinstance_ValueError _ = False"

text \<open>A decoded JSON document, as the Python value \<open>response.json()\<close> returns.\<close>

datatype pyval =
    PNone
  | PBool bool
  | PInt int
  | PFloat real
  | PStr string
  | PList "pyval list"
  | PDict "(string \<times> pyval) list"

text \<open>
  What \<open>requests.post\<close> meets: no response at all (a \<open>RequestException\<close>), or a
  response with a status code and a body that decodes as JSON or does not.
\<close>

datatype http_result = ConnectionFailure | HttpResponse nat "pyval option"

record payload =
  payload_model :: string
  payload_messages :: "(string \<times> string) list"
  payload_temperature :: real
  payload_top_p :: real
  payload_max_tokens :: int
  payload_stream :: bool

type_synonym TextEmbedder = "string \<Rightarrow> exn + vec"

text \<open>
  Everything the program takes from outside: \<open>os.listdir\<close>, reading
  \<open>os.path.join(dir, name)\<close> as UTF-8 text, the HTTP POST of a payload to an endpoint
  with given headers, loading the pretrained model behind a \<open>TextEmbedder\<close>, and two
  things that are the vector store's own: the similarity score it computes for a query
  and a stored vector (the cosine metric of the collection, in the store's floating
  point arithmetic), and the order in which it returns points of equal score, given as
  a rank of their identifiers (the lower rank first).
\<close>

record world =
  listdir :: "string \<Rightarrow> exn + string list"
  read_file :: "string \<Rightarrow> string \<Rightarrow> exn + string"
  http_post :: "string \<Rightarrow> (string \<times> string) list \<Rightarrow> payload \<Rightarrow> http_result"
  load_embedder :: "string \<Rightarrow> string \<Rightarrow> exn + TextEmbedder"
  store_score :: "vec \<Rightarrow> vec \<Rightarrow> real"
  store_tie_rank :: "nat \<Rightarrow> int"

definition newline :: string where
  "newline = [CHR 0x0A]"

definition endswith :: "string \<Rightarrow> string \<Rightarrow> bool" where
  "endswith s suf = (length suf \<le> length s \<and> drop (length s - length suf) s = suf)"

section \<open>document_processor.py\<close>

record DocumentProcessor =
  documents_dir :: string
  embedder :: TextEmbedder
  document_titles :: "string list"
  document_embeddings :: "vec list"

definition DocumentProcessor_init :: "string \<Rightarrow> TextEmbedder \<Rightarrow> DocumentProcessor" where
  "DocumentProcessor_init dir emb =
     \<lparr>documents_dir = dir, embedder = emb, document_titles = [], document_embeddings = []\<rparr>"

text \<open>
  The body of the \<open>for filename in os.listdir(...)\<close> loop. The processor is mutated in
  place, so the state reached when an exception leaves the loop is returned with it.
\<close>

fun process_files :: "world \<Rightarrow> string list \<Rightarrow> DocumentProcessor \<Rightarrow> exn option \<times> DocumentProcessor" where
  "process_files w [] p = (None, p)"
| "process_files w (filename # rest) p =
     (if endswith filename ''.txt'' then
        (case read_file w (documents_dir p) filename of
           Inl e \<Rightarrow> (Some e, p)
         | Inr content \<Rightarrow>
             (case embedder p content of
                Inl e \<Rightarrow> (Some e, p)
              | Inr embedding \<Rightarrow>
                  process_files w rest
                    (p\<lparr>document_embeddings := document_embeddings p @ [embedding],
                       document_titles := document_titles p @ [filename]\<rparr>)))
      else process_files w rest p)"

definition process_documents :: "world \<Rightarrow> DocumentProcessor \<Rightarrow> exn option \<times> DocumentProcessor" where
  "process_documents w p =
     (case listdir w (documents_dir p) of
        Inl e \<Rightarrow> (Some e, p)
      | Inr names \<Rightarrow>
          (case process_files w names p of
             (Some e, p') \<Rightarrow> (Some e, p')
           | (None, p') \<Rightarrow>
               if document_embeddings p' = [] then
                 (Some (ValueError ''No document embeddings were created. Please check your documents directory.''), p')
               else (None, p')))"

section \<open>qdrant_index.py\<close>

text \<open>
  The in-memory collection: its configured vector size and its points, each an
  identifier with a vector and the title of its payload.
\<close>

record QdrantIndex =
  dimension :: nat
  points :: "(nat \<times> vec \<times> string) list"

text \<open>
  A fresh \<open>QdrantClient(":memory:")\<close> holds no collection, so the constructor always
  creates an empty one of the given size.
\<close>

definition QdrantIndex_init :: "nat \<Rightarrow> QdrantIndex" where
  "QdrantIndex_init d = \<lparr>dimension = d, points = []\<rparr>"

text \<open>
  Modelled from the spec: \<open>QdrantClient.upsert\<close>, the bulk insert of the external vector
  store. It fails, leaving the collection as it was, when a vector's length is not the
  configured dimension; otherwise each point is stored under its identifier, replacing
  a point that already has it.
\<close>

definition upsert :: "QdrantIndex \<Rightarrow> (nat \<times> vec \<times> string) list \<Rightarrow> exn + QdrantIndex" where
  "upsert idx pts =
     (if list_all (\<lambda>pt. length (fst (snd pt)) = dimension idx) pts then
        Inr (idx\<lparr>points := fold (\<lambda>pt. AList.update (fst pt) (snd pt)) pts (points idx)\<rparr>)
      else Inl (QdrantError ''wrong vector dimension''))"

definition add_embeddings :: "QdrantIndex \<Rightarrow> vec list \<Rightarrow> string list \<Rightarrow> exn + QdrantIndex" where
  "add_embeddings idx embeddings titles =
     upsert idx (map (\<lambda>(i, embedding, title). (i, embedding, title))
                     (enumerate 0 (zip embeddings titles)))"

text \<open>
  Modelled from the spec: \<open>QdrantClient.search\<close>, the nearest-neighbour service of the
  external vector store. It returns at most \<open>limit\<close> points ranked by descending
  similarity to the query. The score and the order among points of equal score are
  the store's and come from the world.
\<close>

definition rank_key :: "world \<Rightarrow> vec \<Rightarrow> nat \<times> vec \<times> string \<Rightarrow> real \<times> int" where
  "rank_key w query_vector pt =
     (- store_score w query_vector (fst (snd pt)), store_tie_rank w (fst pt))"

definition client_search ::
  "world \<Rightarrow> QdrantIndex \<Rightarrow> vec \<Rightarrow> nat \<Rightarrow> exn + (nat \<times> vec \<times> string) list" where
  "client_search w idx query_vector limit =
     (if length query_vector = dimension idx then
        Inr (take limit (sort_key (rank_key w query_vector) (points idx)))
      else Inl (QdrantError ''wrong vector dimension''))"

definition search :: "world \<Rightarrow> QdrantIndex \<Rightarrow> vec \<Rightarrow> nat \<Rightarrow> exn + string list" where
  "search w idx query_embedding top_n =
     (case client_search w idx query_embedding top_n of
        Inl e \<Rightarrow> Inl e
      | Inr search_result \<Rightarrow> Inr (map (\<lambda>hit. snd (snd hit)) search_result))"

section \<open>endpoint.py\<close>

text \<open>
  \<open>raise_for_status\<close> raises for the status codes 400 to 599. Both handlers of
  \<open>RequestSender.send\<close> turn what they catch into \<open>SystemExit\<close>; the text of the
  caught exception, which the message of the outer handler ends with, is left out.
\<close>

definition RequestSender_send ::
  "world \<Rightarrow> string \<Rightarrow> (string \<times> string) list \<Rightarrow> payload \<Rightarrow> exn + pyval" where
  "RequestSender_send w endpoint headers pl =
     (case http_post w endpoint headers pl of
        ConnectionFailure \<Rightarrow> Inl (SystemExit ''Failed to make the request.'')
      | HttpResponse status body \<Rightarrow>
          if 400 \<le> status \<and> status < 600 then Inl (SystemExit ''Failed to make the request.'')
          else (case body of
                  None \<Rightarrow> Inl (SystemExit ''Failed to parse the response as JSON.'')
                | Some json \<Rightarrow> Inr json))"

record EndPoint =
  ep_api_key :: string
  ep_endpoint :: string
  ep_headers :: "(string \<times> string) list"

definition EndPoint_init :: "string \<Rightarrow> string \<Rightarrow> EndPoint" where
  "EndPoint_init key url =
     \<lparr>ep_api_key = key, ep_endpoint = url,
      ep_headers = [(''Content-Type'', ''application/json''), (''api-key'', key)]\<rparr>"

definition EndPoint_send :: "world \<Rightarrow> EndPoint \<Rightarrow> payload \<Rightarrow> exn + pyval" where
  "EndPoint_send w ep pl = RequestSender_send w (ep_endpoint ep) (ep_headers ep) pl"

text \<open>Python's \<open>obj[key]\<close> with a string key on a decoded JSON value.\<close>

fun getitem :: "pyval \<Rightarrow> string \<Rightarrow> exn + pyval" where
  "getitem (PDict kvs) k = (case map_of kvs k of None \<Rightarrow> Inl (KeyError k) | Some v \<Rightarrow> Inr v)"
| "getitem _ k = Inl (TypeError ''indices must be integers or the object is not subscriptable'')"

section \<open>simple_rag.py\<close>

record SimpleRAG =
  rag_embedder :: TextEmbedder
  processor :: DocumentProcessor
  index :: QdrantIndex
  api_key :: string
  api_url :: string
  top_n :: nat
  model :: string
  temperature :: real
  top_p :: real
  max_tokens :: int

text \<open>The constructor, and the constructor with its defaulted parameters left out.\<close>

definition SimpleRAG_init ::
  "TextEmbedder \<Rightarrow> DocumentProcessor \<Rightarrow> QdrantIndex \<Rightarrow> string \<Rightarrow> string \<Rightarrow> nat \<Rightarrow> string \<Rightarrow> real \<Rightarrow> real \<Rightarrow> int
     \<Rightarrow> SimpleRAG" where
  "SimpleRAG_init emb proc idx key url n m t p mt =
     \<lparr>rag_embedder = emb, processor = proc, index = idx, api_key = key, api_url = url,
      top_n = n, model = m, temperature = t, top_p = p, max_tokens = mt\<rparr>"

definition SimpleRAG_init_defaults ::
  "TextEmbedder \<Rightarrow> DocumentProcessor \<Rightarrow> QdrantIndex \<Rightarrow> string \<Rightarrow> string \<Rightarrow> int \<Rightarrow> SimpleRAG" where
  "SimpleRAG_init_defaults emb proc idx key url mt =
     SimpleRAG_init emb proc idx key url 3 ''llama3.2'' (1 / 10) (95 / 100) mt"

definition create_payload :: "SimpleRAG \<Rightarrow> string \<Rightarrow> payload" where
  "create_payload rag prompt =
     \<lparr>payload_model = model rag,
      payload_messages =
        [(''system'', ''You are a helpful assistant named DocumentFinder''),
         (''user'', prompt)],
      payload_temperature = temperature rag,
      payload_top_p = top_p rag,
      payload_max_tokens = max_tokens rag,
      payload_stream = False\<rparr>"

text \<open>The loop of \<open>retrieve\<close> that appends each matched file's text and a newline.\<close>

fun read_titles :: "world \<Rightarrow> string \<Rightarrow> string list \<Rightarrow> string \<Rightarrow> exn + string" where
  "read_titles w dir [] retrieved_content = Inr retrieved_content"
| "read_titles w dir (title # rest) retrieved_content =
     (case read_file w dir title of
        Inl e \<Rightarrow> Inl e
      | Inr text \<Rightarrow> read_titles w dir rest (retrieved_content @ text @ newline))"

definition retrieve :: "world \<Rightarrow> SimpleRAG \<Rightarrow> string \<Rightarrow> exn + (string \<times> string list)" where
  "retrieve w rag query =
     (case rag_embedder rag query of
        Inl e \<Rightarrow> Inl e
      | Inr query_embedding \<Rightarrow>
          (case search w (index rag) query_embedding (top_n rag) of
             Inl e \<Rightarrow> Inl e
           | Inr retrieved_titles \<Rightarrow>
               (case read_titles w (documents_dir (processor rag)) retrieved_titles [] of
                  Inl e \<Rightarrow> Inl e
                | Inr retrieved_content \<Rightarrow> Inr (retrieved_content, retrieved_titles))))"

definition build_prompt :: "string \<Rightarrow> string \<Rightarrow> string" where
  "build_prompt query retrieved_content =
     ''Based on the following documents:'' @ newline @ retrieved_content @ newline
       @ ''Answer the query: '' @ query"

text \<open>
  \<open>except Exception\<close> of \<open>generate_response\<close>: an exception that derives from
  \<open>Exception\<close> becomes the result \<open>None\<close>, any other one leaves the function.
\<close>

definition except_Exception_return_None :: "exn + pyval \<Rightarrow> exn + pyval" where
  "except_Exception_return_None r =
     (case r of
        Inl e \<Rightarrow> if isinstance_Exception e then Inr PNone else Inl e
      | Inr v \<Rightarrow> Inr v)"

definition generate_response :: "world \<Rightarrow> SimpleRAG \<Rightarrow> string \<Rightarrow> string \<Rightarrow> exn + pyval" where
  "generate_response w rag query retrieved_content =
     (let endpoint = EndPoint_init (api_key rag) (api_url rag);
          prompt = build_prompt query retrieved_content
      in except_Exception_return_None
           (case EndPoint_send w endpoint (create_payload rag prompt) of
              Inl e \<Rightarrow> Inl e
            | Inr response \<Rightarrow>
                (case getitem response ''message'' of
                   Inl e \<Rightarrow> Inl e
                 | Inr message \<Rightarrow> getitem message ''content'')))"

text \<open>
  The answer operation as the callers run it: \<open>retrieve\<close>, then \<open>generate_response\<close> on
  the retrieved content; the result pairs the response with the retrieved titles.
\<close>

definition answer :: "world \<Rightarrow> SimpleRAG \<Rightarrow> string \<Rightarrow> exn + (pyval \<times> string list)" where
  "answer w rag query =
     (case retrieve w rag query of
        Inl e \<Rightarrow> Inl e
      | Inr (retrieved_content, retrieved_titles) \<Rightarrow>
          (case generate_response w rag query retrieved_content of
             Inl e \<Rightarrow> Inl e
           | Inr response \<Rightarrow> Inr (response, retrieved_titles)))"

text \<open>
  \<open>document_embeddings[0].shape[1]\<close>: Python raises \<open>IndexError\<close> on an empty list.
\<close>

definition first_dimension :: "vec list \<Rightarrow> exn + nat" where
  "first_dimension embeddings =
     (case embeddings of
        [] \<Rightarrow> Inl (IndexError ''list index out of range'')
      | e # _ \<Rightarrow> Inr (length e))"

text \<open>
  \<open>update_documents\<close> mutates the orchestrator in place: the state is returned together
  with the exception that leaves the call, if one does.
\<close>

definition update_documents :: "world \<Rightarrow> SimpleRAG \<Rightarrow> string \<Rightarrow> exn option \<times> SimpleRAG" where
  "update_documents w rag new_documents_dir =
     (let rag1 = rag\<lparr>processor := (processor rag)\<lparr>documents_dir := new_documents_dir\<rparr>\<rparr> in
      case process_documents w (processor rag1) of
        (Some e, p) \<Rightarrow>
          if isinstance_ValueError e then (None, rag1\<lparr>processor := p\<rparr>)
          else (Some e, rag1\<lparr>processor := p\<rparr>)
      | (None, p) \<Rightarrow>
          (let rag2 = rag1\<lparr>processor := p\<rparr> in
           case first_dimension (document_embeddings p) of
             Inl e \<Rightarrow> (Some e, rag2)
           | Inr d \<Rightarrow>
               (let rag3 = rag2\<lparr>index := QdrantIndex_init d\<rparr> in
                case add_embeddings (index rag3) (document_embeddings p) (document_titles p) of
                  Inl e \<Rightarrow> (Some e, rag3)
                | Inr idx \<Rightarrow> (None, rag3\<lparr>index := idx\<rparr>))))"

text \<open>
  \<open>create_simple_rag\<close> returns \<open>None\<close> when processing raises a \<open>ValueError\<close>, lets any
  other exception through, and passes only \<open>max_tokens\<close> on to the constructor.
\<close>

definition create_simple_rag ::
  "world \<Rightarrow> string \<Rightarrow> string \<Rightarrow> string \<Rightarrow> string \<Rightarrow> string \<Rightarrow> real \<Rightarrow> real \<Rightarrow> int
     \<Rightarrow> exn + SimpleRAG option" where
  "create_simple_rag w dir key url huggingface_token m t p mt =
     (case load_embedder w ''sentence-transformers/paraphrase-MiniLM-L6-v2'' huggingface_token of
        Inl e \<Rightarrow> Inl e
      | Inr emb \<Rightarrow>
          (case process_documents w (DocumentProcessor_init dir emb) of
             (Some e, _) \<Rightarrow> if isinstance_ValueError e then Inr None else Inl e
           | (None, proc) \<Rightarrow>
               (case first_dimension (document_embeddings proc) of
                  Inl e \<Rightarrow> Inl e
                | Inr d \<Rightarrow>
                    (case add_embeddings (QdrantIndex_init d) (document_embeddings proc)
                            (document_titles proc) of
                       Inl e \<Rightarrow> Inl e
                     | Inr idx \<Rightarrow> Inr (Some (SimpleRAG_init_defaults emb proc idx key url mt))))))"

section \<open>Predicates used in the statements\<close>

definition is_txt :: "string \<Rightarrow> bool" where
  "is_txt filename = endswith filename ''.txt''"

text \<open>
  \<open>produced_by w p title embedding\<close>: reading the file \<open>title\<close> of the processor's
  directory succeeds and the embedder turns its content into \<open>embedding\<close>.
\<close>

definition produced_by :: "world \<Rightarrow> DocumentProcessor \<Rightarrow> string \<Rightarrow> vec \<Rightarrow> bool" where
  "produced_by w p title embedding =
     (case read_file w (documents_dir p) title of
        Inl e \<Rightarrow> False
      | Inr content \<Rightarrow> embedder p content = Inr embedding)"

text \<open>
  The two lists of the processor have the same length and the title at each position
  names the file whose content produced the embedding at that position.
\<close>

definition paired :: "world \<Rightarrow> DocumentProcessor \<Rightarrow> bool" where
  "paired w p = list_all2 (produced_by w p) (document_titles p) (document_embeddings p)"

text \<open>
  The prompt as the specification words it: the texts of the retrieved documents, in
  ranked order, separated by newlines, between the two fixed lines.
\<close>

fun join_with :: "string \<Rightarrow> string list \<Rightarrow> string" where
  "join_with sep [] = []"
| "join_with sep [x] = x"
| "join_with sep (x # y # ys) = x @ sep @ join_with sep (y # ys)"

definition spec_prompt :: "string list \<Rightarrow> string \<Rightarrow> string" where
  "spec_prompt texts query =
     ''Based on the following documents:'' @ newline @ join_with newline texts @ newline
       @ ''Answer the query: '' @ query"

section \<open>A small concrete world\<close>

text \<open>
  Three directories: \<open>docs\<close> holds two text files and one file of another kind, \<open>other\<close>
  holds a text file and one that is not valid UTF-8, \<open>empty\<close> holds no text file. The
  embedder is a stub with hand-made vectors, and the endpoint gives one fixed reply.
  The stub score is the dot product, which is the cosine for the unit vectors of the
  stub embedder; points of equal score come in the order of their identifiers.
\<close>

definition demo_embedder :: TextEmbedder where
  "demo_embedder text = (if text = ''cats'' then Inr [1, 0] else Inr [0, 1])"

definition demo_listdir :: "string \<Rightarrow> exn + string list" where
  "demo_listdir d =
     (if d = ''docs'' then Inr [''a.txt'', ''notes.md'', ''b.txt'']
      else if d = ''other'' then Inr [''c.txt'', ''bad.txt'']
      else if d = ''empty'' then Inr [''notes.md'']
      else Inl (OSError ''No such file or directory''))"

definition demo_read_file :: "string \<Rightarrow> string \<Rightarrow> exn + string" where
  "demo_read_file d f =
     (if d = ''docs'' \<and> f = ''a.txt'' then Inr ''cats''
      else if d = ''docs'' \<and> f = ''b.txt'' then Inr ''rockets''
      else if d = ''other'' \<and> f = ''c.txt'' then Inr ''cars''
      else if d = ''other'' \<and> f = ''bad.txt'' then Inl UnicodeDecodeError
      else Inl (OSError ''No such file or directory''))"

definition demo_score :: "vec \<Rightarrow> vec \<Rightarrow> real" where
  "demo_score a b = sum_list (map2 (*) a b)"

definition demo_world :: "http_result \<Rightarrow> world" where
  "demo_world reply =
     \<lparr>listdir = demo_listdir,
      read_file = demo_read_file,
      http_post = (\<lambda>url headers pl. reply),
      load_embedder = (\<lambda>name token. Inr demo_embedder),
      store_score = demo_score,
      store_tie_rank = (\<lambda>i. int i)\<rparr>"

definition demo_processor :: DocumentProcessor where
  "demo_processor =
     \<lparr>documents_dir = ''docs'', embedder = demo_embedder,
      document_titles = [''a.txt'', ''b.txt''],
      document_embeddings = [[1, 0], [0, 1]]\<rparr>"

definition demo_index :: QdrantIndex where
  "demo_index = \<lparr>dimension = 2, points = [(0, [1, 0], ''a.txt''), (1, [0, 1], ''b.txt'')]\<rparr>"

definition demo_rag :: SimpleRAG where
  "demo_rag =
     \<lparr>rag_embedder = demo_embedder, processor = demo_processor, index = demo_index,
      api_key = ''key'', api_url = ''http://localhost:11434/api/chat'', top_n = 3,
      model = ''llama3.2'', temperature = 1 / 10, top_p = 95 / 100, max_tokens = 3000\<rparr>"


section \<open>Evaluating the concrete world\<close>

lemmas demo_defs = demo_world_def demo_embedder_def demo_listdir_def demo_read_file_def
  demo_processor_def demo_index_def demo_rag_def demo_score_def

lemmas build_defs = process_documents_def DocumentProcessor_init_def endswith_def
  create_simple_rag_def first_dimension_def add_embeddings_def upsert_def QdrantIndex_init_def
  enumerate_eq_zip SimpleRAG_init_defaults_def SimpleRAG_init_def update_documents_def

lemma demo_build:
  "create_simple_rag (demo_world r) ''docs'' ''key'' ''http://localhost:11434/api/chat'' ''tok''
      ''mistral'' (7 / 10) (1 / 2) 3000
     = Inr (Some demo_rag)"
  by (simp add: demo_defs build_defs)

lemma demo_retrieve:
  "retrieve (demo_world r) demo_rag ''cats''
     = Inr (''cats'' @ newline @ ''rockets'' @ newline, [''a.txt'', ''b.txt''])"
  by (simp add: retrieve_def search_def client_search_def rank_key_def demo_defs)

section \<open>The document processor\<close>

lemma produced_by_cong:
  "documents_dir p' = documents_dir p \<Longrightarrow> embedder p' = embedder p \<Longrightarrow>
   produced_by w p' = produced_by w p"
  by (auto simp: produced_by_def fun_eq_iff split: sum.splits)

lemma process_files_fields:
  "process_files w names p = (r, p') \<Longrightarrow>
   documents_dir p' = documents_dir p \<and> embedder p' = embedder p"
proof (induction names arbitrary: p)
  case Nil
  then show ?case by simp
next
  case (Cons f names)
  then show ?case
    by (auto split: if_splits sum.splits)
qed

text \<open>
  Whatever way the loop ends, it has appended to both lists, pairwise, the files of a
  prefix of the text files of the listing; it has appended all of them when it ends
  without an exception.
\<close>

lemma process_files_appends:
  "process_files w names p = (r, p') \<Longrightarrow>
   \<exists>fs vs. document_titles p' = document_titles p @ fs
     \<and> document_embeddings p' = document_embeddings p @ vs
     \<and> list_all2 (produced_by w p) fs vs
     \<and> fs = take (length fs) (filter is_txt names)
     \<and> (r = None \<longrightarrow> fs = filter is_txt names)"
proof (induction names arbitrary: p)
  case Nil
  then show ?case by simp
next
  case (Cons f names)
  show ?case
  proof (cases "endswith f ''.txt''")
    case False
    with Cons.prems have "process_files w names p = (r, p')" by simp
    from Cons.IH [OF this] False show ?thesis by (simp add: is_txt_def)
  next
    case is_text: True
    show ?thesis
    proof (cases "read_file w (documents_dir p) f")
      case (Inl e)
      with is_text Cons.prems have "p' = p" "r = Some e" by simp_all
      then show ?thesis by simp
    next
      case (Inr content)
      show ?thesis
      proof (cases "embedder p content")
        case (Inl e)
        with is_text Inr Cons.prems have "p' = p" "r = Some e" by simp_all
        then show ?thesis by simp
      next
        case emb: (Inr v)
        define q where "q = p\<lparr>document_embeddings := document_embeddings p @ [v],
                               document_titles := document_titles p @ [f]\<rparr>"
        from is_text Inr emb Cons.prems have run: "process_files w names q = (r, p')"
          by (simp add: q_def)
        have same: "produced_by w q = produced_by w p"
          by (rule produced_by_cong) (simp_all add: q_def)
        from Cons.IH [OF run] obtain fs vs where
          t: "document_titles p' = document_titles q @ fs" and
          e: "document_embeddings p' = document_embeddings q @ vs" and
          pr: "list_all2 (produced_by w p) fs vs" and
          pre: "fs = take (length fs) (filter is_txt names)" and
          all: "r = None \<longrightarrow> fs = filter is_txt names"
          unfolding same by blast
        have here: "produced_by w p f v"
          using Inr emb by (simp add: produced_by_def)
        have "document_titles p' = document_titles p @ (f # fs)"
          using t by (simp add: q_def)
        moreover have "document_embeddings p' = document_embeddings p @ (v # vs)"
          using e by (simp add: q_def)
        moreover have "list_all2 (produced_by w p) (f # fs) (v # vs)"
          using here pr by simp
        moreover have "f # fs = take (length (f # fs)) (filter is_txt (f # names))"
          using pre is_text by (simp add: is_txt_def)
        moreover have "r = None \<longrightarrow> f # fs = filter is_txt (f # names)"
          using all is_text by (simp add: is_txt_def)
        ultimately show ?thesis by blast
      qed
    qed
  qed
qed

lemma process_documents_fields:
  "process_documents w p = (r, p') \<Longrightarrow>
   documents_dir p' = documents_dir p \<and> embedder p' = embedder p"
  unfolding process_documents_def
  by (auto split: sum.splits prod.splits option.splits if_splits dest: process_files_fields)

lemma process_documents_appends:
  assumes "process_documents w p = (r, p')"
  shows "\<exists>fs vs. document_titles p' = document_titles p @ fs
     \<and> document_embeddings p' = document_embeddings p @ vs
     \<and> list_all2 (produced_by w p) fs vs"
proof (cases "listdir w (documents_dir p)")
  case (Inl e)
  with assms have "p' = p" by (simp add: process_documents_def)
  then show ?thesis by simp
next
  case (Inr names)
  obtain r0 p0 where run: "process_files w names p = (r0, p0)"
    by (cases "process_files w names p")
  with Inr assms have "p' = p0"
    by (auto simp: process_documents_def split: option.splits if_splits)
  with process_files_appends [OF run] show ?thesis by blast
qed

text \<open>
  C10. The processor's titles and embeddings always have the same length and are
  paired by position: the title at a position names the file whose content produced
  the embedding at that position. The freshly constructed processor satisfies this,
  and every call of \<open>process_documents\<close>, whether it returns or raises, leaves a
  processor that satisfies it when it started from one that does.
\<close>

theorem processor_pairing_invariant:
  "paired w (DocumentProcessor_init dir emb)
   \<and> (paired w p \<longrightarrow>
        paired w (snd (process_documents w p))
        \<and> length (document_titles (snd (process_documents w p)))
            = length (document_embeddings (snd (process_documents w p))))"
proof -
  have init: "paired w (DocumentProcessor_init dir emb)"
    by (simp add: paired_def DocumentProcessor_init_def)
  have step: "paired w (snd (process_documents w p))" if inv: "paired w p"
  proof -
    obtain r p' where run: "process_documents w p = (r, p')"
      by (cases "process_documents w p")
    from process_documents_appends [OF run] obtain fs vs where
      t: "document_titles p' = document_titles p @ fs" and
      e: "document_embeddings p' = document_embeddings p @ vs" and
      pr: "list_all2 (produced_by w p) fs vs"
      by blast
    have same: "produced_by w p' = produced_by w p"
      using process_documents_fields [OF run] by (intro produced_by_cong) simp_all
    have "list_all2 (produced_by w p) (document_titles p @ fs) (document_embeddings p @ vs)"
      using inv pr by (simp add: paired_def list_all2_appendI)
    then show ?thesis
      by (simp add: run paired_def same t e)
  qed
  have len: "paired w q \<Longrightarrow> length (document_titles q) = length (document_embeddings q)" for q
    by (simp add: paired_def list_all2_lengthD)
  show ?thesis using init step len by blast
qed

text \<open>
  The invariant at a call that raises: in \<open>other\<close> the first file is processed and the
  second cannot be decoded.
\<close>

theorem processor_pairing_invariant_witness:
  "paired (demo_world ConnectionFailure) (DocumentProcessor_init ''other'' demo_embedder)
   \<and> process_documents (demo_world ConnectionFailure) (DocumentProcessor_init ''other'' demo_embedder)
       = (Some UnicodeDecodeError,
          \<lparr>documents_dir = ''other'', embedder = demo_embedder,
           document_titles = [''c.txt''], document_embeddings = [[0, 1]]\<rparr>)
   \<and> paired (demo_world ConnectionFailure)
       (snd (process_documents (demo_world ConnectionFailure)
              (DocumentProcessor_init ''other'' demo_embedder)))"
proof -
  have run: "process_documents (demo_world ConnectionFailure) (DocumentProcessor_init ''other'' demo_embedder)
       = (Some UnicodeDecodeError,
          \<lparr>documents_dir = ''other'', embedder = demo_embedder,
           document_titles = [''c.txt''], document_embeddings = [[0, 1]]\<rparr>)"
    by (simp add: demo_defs build_defs)
  show ?thesis
    using processor_pairing_invariant [of "demo_world ConnectionFailure" "''other''" demo_embedder
        "DocumentProcessor_init ''other'' demo_embedder"] run
    by simp
qed

section \<open>Generation failures\<close>

text \<open>
  C1. When the completion call fails, the answer operation is claimed to return the
  retrieved titles with no generated text. At an HTTP 500 reply, at a connection
  failure and at a reply that is not JSON, \<open>RequestSender.send\<close> raises \<open>SystemExit\<close>,
  which \<open>except Exception\<close> in \<open>generate_response\<close> does not catch: the answer
  operation ends with that exception instead of a result.
\<close>

theorem answer_http_500_exits:
  "answer (demo_world (HttpResponse 500 None)) demo_rag ''cats''
     = Inl (SystemExit ''Failed to make the request.'')
   \<and> answer (demo_world ConnectionFailure) demo_rag ''cats''
     = Inl (SystemExit ''Failed to make the request.'')
   \<and> answer (demo_world (HttpResponse 200 None)) demo_rag ''cats''
     = Inl (SystemExit ''Failed to parse the response as JSON.'')"
  unfolding answer_def demo_retrieve
  by (simp add: generate_response_def EndPoint_send_def
      RequestSender_send_def except_Exception_return_None_def demo_world_def)

text \<open>
  The handler does what it was written for on the failures that reach it: a reply
  that decodes as JSON and has no \<open>message\<close> key gives no text and the titles.
\<close>

lemma answer_missing_key_none:
  "answer (demo_world (HttpResponse 200 (Some (PDict [])))) demo_rag ''cats''
     = Inr (PNone, [''a.txt'', ''b.txt''])"
  unfolding answer_def demo_retrieve
  by (simp add: generate_response_def EndPoint_send_def
      RequestSender_send_def except_Exception_return_None_def demo_world_def)

section \<open>Rebuilding\<close>

text \<open>
  C2. Rebuilding over an unchanged directory is claimed to give the entry set of the
  first build. \<open>process_documents\<close> appends to the lists of the first build, so the
  index built by \<open>update_documents\<close> over the same directory holds every entry twice.
\<close>

theorem rebuild_same_directory_doubles:
  "create_simple_rag (demo_world ConnectionFailure) ''docs'' ''key'' ''http://localhost:11434/api/chat''
      ''tok'' ''llama3.2'' (1 / 10) (95 / 100) 3000
     = Inr (Some demo_rag)
   \<and> points (index demo_rag) = [(0, [1, 0], ''a.txt''), (1, [0, 1], ''b.txt'')]
   \<and> fst (update_documents (demo_world ConnectionFailure) demo_rag ''docs'') = None
   \<and> points (index (snd (update_documents (demo_world ConnectionFailure) demo_rag ''docs'')))
       = [(0, [1, 0], ''a.txt''), (1, [0, 1], ''b.txt''),
          (2, [1, 0], ''a.txt''), (3, [0, 1], ''b.txt'')]"
  by (simp add: demo_defs build_defs)

section \<open>Inserting into the index\<close>

text \<open>
  Upserting a list of points: a key that is new goes to the end of the list, the last
  point given for a key is the one stored, and the keys stay distinct.
\<close>

lemma update_fresh_key:
  "k \<notin> fst ` set al \<Longrightarrow> AList.update k v al = al @ [(k, v)]"
  by (induction al) auto

lemma fold_update_fresh:
  "distinct (map fst pts) \<Longrightarrow> fst ` set pts \<inter> fst ` set al = {} \<Longrightarrow>
   fold (\<lambda>pt. AList.update (fst pt) (snd pt)) pts al = al @ pts"
proof (induction pts arbitrary: al)
  case Nil
  then show ?case by simp
next
  case (Cons pt pts)
  have fresh: "fst pt \<notin> fst ` set al" using Cons.prems(2) by auto
  have step: "AList.update (fst pt) (snd pt) al = al @ [pt]"
    using update_fresh_key [OF fresh, of "snd pt"] by simp
  have "fst ` set pts \<inter> fst ` set (al @ [pt]) = {}"
    using Cons.prems by auto
  with Cons.IH [of "al @ [pt]"] Cons.prems(1) step show ?case by simp
qed

lemma map_of_fold_update:
  "map_of (fold (\<lambda>pt. AList.update (fst pt) (snd pt)) pts al) k =
     (case map_of (rev pts) k of None \<Rightarrow> map_of al k | Some v \<Rightarrow> Some v)"
proof (induction pts arbitrary: al)
  case Nil
  then show ?case by simp
next
  case (Cons pt pts)
  show ?case
    by (cases pt) (auto simp: Cons.IH update_conv' map_add_def split: option.splits)
qed

lemma enumerate_keys: "map fst (enumerate n xs) = [n..<n + length xs]"
  by (simp add: enumerate_eq_zip)

lemma map_of_enumerate:
  "i < length xs \<Longrightarrow> map_of (rev (enumerate 0 xs)) i = Some (xs ! i)"
proof -
  assume i: "i < length xs"
  have d: "distinct (map fst (enumerate 0 xs))" by (simp add: enumerate_keys)
  have "(i, xs ! i) \<in> set (enumerate 0 xs)"
    using i by (simp add: in_set_enumerate_eq)
  then have "map_of (enumerate 0 xs) i = Some (xs ! i)"
    using d by (simp add: map_of_eq_Some_iff)
  moreover have "map_of (rev (enumerate 0 xs)) = map_of (enumerate 0 xs)"
    using d by (intro map_of_inject_set [THEN iffD2]) (simp_all add: distinct_rev rev_map [symmetric])
  ultimately show ?thesis by simp
qed

lemma add_embeddings_points:
  "add_embeddings idx es ts =
     (if list_all (\<lambda>pt. length (fst pt) = dimension idx) (zip es ts) then
        Inr (idx\<lparr>points := fold (\<lambda>pt. AList.update (fst pt) (snd pt)) (enumerate 0 (zip es ts)) (points idx)\<rparr>)
      else Inl (QdrantError ''wrong vector dimension''))"
proof -
  have same: "map (\<lambda>(i, embedding, title). (i, embedding, title)) xs = xs" for xs :: "(nat \<times> vec \<times> string) list"
    by (induction xs) auto
  have dims: "list_all (\<lambda>pt. length (fst (snd pt)) = d) (enumerate n xs)
       = list_all (\<lambda>pt. length (fst pt) = d) xs" for d n and xs :: "(vec \<times> string) list"
    by (induction xs arbitrary: n) auto
  show ?thesis
    by (simp add: add_embeddings_def upsert_def same dims)
qed

lemma fold_update_distinct:
  "distinct (map fst al) \<Longrightarrow>
   distinct (map fst (fold (\<lambda>pt. AList.update (fst pt) (snd pt)) pts al))"
  by (induction pts arbitrary: al) (simp_all add: distinct_update)

lemma add_embeddings_distinct:
  "distinct (map fst (points idx)) \<Longrightarrow> add_embeddings idx es ts = Inr idx' \<Longrightarrow>
   distinct (map fst (points idx'))"
  by (auto simp: add_embeddings_points fold_update_distinct split: if_splits)

text \<open>
  C7. \<open>add_embeddings\<close> hands to the store the pairs of embeddings and titles, each
  with its position in that sequence, counted from 0, as identifier. When the vectors
  have the dimension the index was created with, the store accepts them: each pair is
  then the entry under its position, identifiers beyond the sequence keep what they
  held, and on a fresh index the stored points are exactly the numbered pairs. Titles
  play no part in the identifiers, so pairs with equal titles are separate entries.
\<close>

theorem add_embeddings_positions:
  "add_embeddings idx embeddings titles = upsert idx (enumerate 0 (zip embeddings titles))
   \<and> (\<forall>i < length (zip embeddings titles).
         enumerate 0 (zip embeddings titles) ! i = (i, zip embeddings titles ! i))
   \<and> (list_all (\<lambda>pt. length (fst pt) = dimension idx) (zip embeddings titles) \<longrightarrow>
        (\<exists>idx'. add_embeddings idx embeddings titles = Inr idx'
           \<and> dimension idx' = dimension idx
           \<and> (\<forall>i < length (zip embeddings titles).
                 map_of (points idx') i = Some (zip embeddings titles ! i))
           \<and> (\<forall>i. length (zip embeddings titles) \<le> i \<longrightarrow>
                 map_of (points idx') i = map_of (points idx) i)
           \<and> (points idx = [] \<longrightarrow> points idx' = enumerate 0 (zip embeddings titles))))"
proof (intro conjI impI)
  let ?xs = "zip embeddings titles"
  have same: "map (\<lambda>(i, embedding, title). (i, embedding, title)) ys = ys"
    for ys :: "(nat \<times> vec \<times> string) list"
    by (induction ys) auto
  show "add_embeddings idx embeddings titles = upsert idx (enumerate 0 ?xs)"
    by (simp add: add_embeddings_def same)
  show "\<forall>i < length ?xs. enumerate 0 ?xs ! i = (i, ?xs ! i)"
    by (simp add: nth_enumerate_eq)
next
  let ?xs = "zip embeddings titles"
  let ?idx' = "idx\<lparr>points := fold (\<lambda>pt. AList.update (fst pt) (snd pt)) (enumerate 0 ?xs) (points idx)\<rparr>"
  assume dims: "list_all (\<lambda>pt. length (fst pt) = dimension idx) ?xs"
  have run: "add_embeddings idx embeddings titles = Inr ?idx'"
    using dims by (simp add: add_embeddings_points)
  have hit: "map_of (points ?idx') i = Some (?xs ! i)" if "i < length ?xs" for i
    using that by (simp add: map_of_fold_update map_of_enumerate)
  have miss: "map_of (points ?idx') i = map_of (points idx) i" if "length ?xs \<le> i" for i
  proof -
    have "i \<notin> fst ` set (rev (enumerate 0 ?xs))"
      using that by (auto simp: in_set_enumerate_eq)
    then have "map_of (rev (enumerate 0 ?xs)) i = None"
      by (simp add: map_of_eq_None_iff)
    then show ?thesis by (simp add: map_of_fold_update)
  qed
  have fresh: "points ?idx' = enumerate 0 ?xs" if "points idx = []"
    using that fold_update_fresh [of "enumerate 0 ?xs" "[]"] by (simp add: enumerate_keys)
  show "\<exists>idx'. add_embeddings idx embeddings titles = Inr idx'
           \<and> dimension idx' = dimension idx
           \<and> (\<forall>i < length ?xs. map_of (points idx') i = Some (?xs ! i))
           \<and> (\<forall>i. length ?xs \<le> i \<longrightarrow> map_of (points idx') i = map_of (points idx) i)
           \<and> (points idx = [] \<longrightarrow> points idx' = enumerate 0 ?xs)"
    using run hit miss fresh by (intro exI [of _ ?idx']) simp
qed

text \<open>Three pairs, two of them with the same title, on a fresh index of dimension 2.\<close>

theorem add_embeddings_positions_witness:
  "list_all (\<lambda>pt. length (fst pt) = dimension (QdrantIndex_init 2))
     (zip [[1, 0], [0, 1], [1, 0]] [''a.txt'', ''a.txt'', ''b.txt''])
   \<and> add_embeddings (QdrantIndex_init 2) [[1, 0], [0, 1], [1, 0]] [''a.txt'', ''a.txt'', ''b.txt'']
       = Inr \<lparr>dimension = 2,
              points = [(0, [1, 0], ''a.txt''), (1, [0, 1], ''a.txt''), (2, [1, 0], ''b.txt'')]\<rparr>"
proof -
  have dims: "list_all (\<lambda>pt. length (fst pt) = dimension (QdrantIndex_init 2))
     (zip [[1, 0], [0, 1], [1, 0]] [''a.txt'', ''a.txt'', ''b.txt''])"
    by (simp add: QdrantIndex_init_def)
  from add_embeddings_positions [of "QdrantIndex_init 2" "[[1, 0], [0, 1], [1, 0]]"
      "[''a.txt'', ''a.txt'', ''b.txt'']"] dims
  obtain idx' where
    run: "add_embeddings (QdrantIndex_init 2) [[1, 0], [0, 1], [1, 0]] [''a.txt'', ''a.txt'', ''b.txt''] = Inr idx'" and
    d: "dimension idx' = dimension (QdrantIndex_init 2)" and
    pts: "points (QdrantIndex_init 2) = [] \<longrightarrow>
          points idx' = enumerate 0 (zip [[1, 0], [0, 1], [1, 0]] [''a.txt'', ''a.txt'', ''b.txt''])"
    by blast
  have "idx' = \<lparr>dimension = 2,
              points = [(0, [1, 0], ''a.txt''), (1, [0, 1], ''a.txt''), (2, [1, 0], ''b.txt'')]\<rparr>"
    using d pts by (cases idx') (simp add: QdrantIndex_init_def enumerate_eq_zip)
  with run dims show ?thesis by simp
qed

section \<open>Building\<close>

lemma process_files_no_text:
  "filter is_txt names = [] \<Longrightarrow> process_files w names p = (None, p)"
  by (induction names) (auto simp: is_txt_def split: if_splits)

text \<open>
  C4. Over a directory whose listing holds no \<open>.txt\<close> file, \<open>process_documents\<close> on
  the fresh processor raises the \<open>ValueError\<close> "No document embeddings were created",
  and \<open>create_simple_rag\<close> produces no orchestrator: it returns \<open>None\<close> once the
  embedder is loaded.
\<close>

theorem build_without_text_files_fails:
  assumes "listdir w dir = Inr names" and "filter is_txt names = []"
  shows "process_documents w (DocumentProcessor_init dir emb)
       = (Some (ValueError ''No document embeddings were created. Please check your documents directory.''),
          DocumentProcessor_init dir emb)
     \<and> create_simple_rag w dir key url tok m t p mt \<noteq> Inr (Some rag)
     \<and> (load_embedder w ''sentence-transformers/paraphrase-MiniLM-L6-v2'' tok = Inr emb
          \<longrightarrow> create_simple_rag w dir key url tok m t p mt = Inr None)"
proof -
  have run: "process_documents w (DocumentProcessor_init dir e)
       = (Some (ValueError ''No document embeddings were created. Please check your documents directory.''),
          DocumentProcessor_init dir e)" for e
    using assms
    by (simp add: process_documents_def process_files_no_text DocumentProcessor_init_def)
  show ?thesis
    by (auto simp: run create_simple_rag_def split: sum.splits)
qed

text \<open>The directory \<open>empty\<close> holds one file, which is not a text file.\<close>

theorem build_without_text_files_fails_witness:
  "listdir (demo_world ConnectionFailure) ''empty'' = Inr [''notes.md'']
   \<and> filter is_txt [''notes.md''] = []
   \<and> fst (process_documents (demo_world ConnectionFailure) (DocumentProcessor_init ''empty'' demo_embedder))
       = Some (ValueError ''No document embeddings were created. Please check your documents directory.'')
   \<and> create_simple_rag (demo_world ConnectionFailure) ''empty'' ''key'' ''url'' ''tok'' ''llama3.2'' (1 / 10) (95 / 100) 3000
       = Inr None"
proof -
  have l: "listdir (demo_world ConnectionFailure) ''empty'' = Inr [''notes.md'']"
    by (simp add: demo_defs)
  have f: "filter is_txt [''notes.md''] = []"
    by (simp add: is_txt_def endswith_def)
  have e: "load_embedder (demo_world ConnectionFailure) ''sentence-transformers/paraphrase-MiniLM-L6-v2'' ''tok'' = Inr demo_embedder"
    by (simp add: demo_world_def)
  show ?thesis
    using build_without_text_files_fails [OF l f, of demo_embedder "''key''" "''url''" "''tok''"
        "''llama3.2''" "1 / 10" "95 / 100" 3000] l f e
    by simp
qed

text \<open>
  C5. An orchestrator returned by \<open>create_simple_rag\<close> has the constructor defaults
  \<open>llama3.2\<close>, \<open>0.1\<close> and \<open>0.95\<close> as model, temperature and top_p, whatever values
  were passed for them, and the \<open>max_tokens\<close> that was passed; its completion
  payloads carry exactly these.
\<close>

theorem create_simple_rag_uses_defaults:
  assumes "create_simple_rag w dir key url tok m t p mt = Inr (Some rag)"
  shows "model rag = ''llama3.2'' \<and> temperature rag = 1 / 10 \<and> top_p rag = 95 / 100
     \<and> max_tokens rag = mt
     \<and> create_payload rag prompt =
         \<lparr>payload_model = ''llama3.2'',
          payload_messages =
            [(''system'', ''You are a helpful assistant named DocumentFinder''), (''user'', prompt)],
          payload_temperature = 1 / 10, payload_top_p = 95 / 100,
          payload_max_tokens = mt, payload_stream = False\<rparr>"
proof -
  from assms obtain emb proc idx where
    "rag = SimpleRAG_init_defaults emb proc idx key url mt"
    by (auto simp: create_simple_rag_def split: sum.splits prod.splits option.splits if_splits)
  then show ?thesis
    by (simp add: SimpleRAG_init_defaults_def SimpleRAG_init_def create_payload_def)
qed

text \<open>A build that asks for the model \<open>mistral\<close>, temperature 0.7 and top_p 0.5.\<close>

theorem create_simple_rag_uses_defaults_witness:
  "create_simple_rag (demo_world ConnectionFailure) ''docs'' ''key'' ''http://localhost:11434/api/chat''
      ''tok'' ''mistral'' (7 / 10) (1 / 2) 3000 = Inr (Some demo_rag)
   \<and> model demo_rag = ''llama3.2'' \<and> temperature demo_rag = 1 / 10 \<and> top_p demo_rag = 95 / 100
   \<and> max_tokens demo_rag = 3000
   \<and> payload_model (create_payload demo_rag ''hello'') = ''llama3.2''"
  using create_simple_rag_uses_defaults [OF demo_build [of ConnectionFailure], of "''hello''"]
    demo_build [of ConnectionFailure]
  by simp

text \<open>
  The loop ends without an exception when every text file of the listing can be read
  and embedded; a property that holds of every such embedding holds of all that were
  appended.
\<close>

lemma process_files_total:
  "\<forall>f \<in> set (filter is_txt names).
      \<exists>c v. read_file w (documents_dir p) f = Inr c \<and> embedder p c = Inr v \<and> P v \<Longrightarrow>
   \<exists>p' vs. process_files w names p = (None, p')
      \<and> document_embeddings p' = document_embeddings p @ vs \<and> list_all P vs"
proof (induction names arbitrary: p)
  case Nil
  then show ?case by simp
next
  case (Cons f names)
  show ?case
  proof (cases "endswith f ''.txt''")
    case False
    with Cons.prems have "\<forall>f \<in> set (filter is_txt names).
      \<exists>c v. read_file w (documents_dir p) f = Inr c \<and> embedder p c = Inr v \<and> P v"
      by (simp add: is_txt_def)
    from Cons.IH [OF this] False show ?thesis by simp
  next
    case True
    with Cons.prems obtain c v where
      rd: "read_file w (documents_dir p) f = Inr c" and em: "embedder p c = Inr v" and pv: "P v"
      by (auto simp: is_txt_def)
    define q where "q = p\<lparr>document_embeddings := document_embeddings p @ [v],
                           document_titles := document_titles p @ [f]\<rparr>"
    have "\<forall>f \<in> set (filter is_txt names).
      \<exists>c v. read_file w (documents_dir q) f = Inr c \<and> embedder q c = Inr v \<and> P v"
      using Cons.prems by (simp add: q_def)
    from Cons.IH [OF this] obtain p' vs where
      run: "process_files w names q = (None, p')" and
      e: "document_embeddings p' = document_embeddings q @ vs" and
      all: "list_all P vs"
      by blast
    have "process_files w (f # names) p = (None, p')"
      using True rd em run by (simp add: q_def)
    moreover have "document_embeddings p' = document_embeddings p @ (v # vs)"
      using e by (simp add: q_def)
    moreover have "list_all P (v # vs)" using pv all by simp
    ultimately show ?thesis by blast
  qed
qed

lemma build_result_counts:
  assumes "create_simple_rag w dir key url tok m t p mt = Inr (Some rag)"
  shows "\<exists>names. listdir w dir = Inr names \<and> filter is_txt names \<noteq> []
     \<and> document_titles (processor rag) = filter is_txt names
     \<and> length (document_embeddings (processor rag)) = length (filter is_txt names)
     \<and> points (index rag)
         = enumerate 0 (zip (document_embeddings (processor rag)) (document_titles (processor rag)))"
proof -
  from assms obtain emb proc d idx where
    pd: "process_documents w (DocumentProcessor_init dir emb) = (None, proc)" and
    add: "add_embeddings (QdrantIndex_init d) (document_embeddings proc) (document_titles proc) = Inr idx" and
    rag: "rag = SimpleRAG_init_defaults emb proc idx key url mt"
    by (auto simp: create_simple_rag_def split: sum.splits prod.splits option.splits if_splits)
  from pd obtain names where
    ls: "listdir w dir = Inr names" and
    pf: "process_files w names (DocumentProcessor_init dir emb) = (None, proc)" and
    ne: "document_embeddings proc \<noteq> []"
    by (auto simp: process_documents_def DocumentProcessor_init_def
        split: sum.splits prod.splits option.splits if_splits)
  from process_files_appends [OF pf] obtain vs where
    t: "document_titles proc = filter is_txt names" and
    e: "document_embeddings proc = vs" and
    pr: "list_all2 (produced_by w (DocumentProcessor_init dir emb)) (filter is_txt names) vs"
    by (auto simp: DocumentProcessor_init_def)
  have len: "length (document_embeddings proc) = length (filter is_txt names)"
    using pr e by (simp add: list_all2_lengthD)
  have "points idx = enumerate 0 (zip (document_embeddings proc) (document_titles proc))"
    using add fold_update_fresh [of "enumerate 0 (zip (document_embeddings proc) (document_titles proc))" "[]"]
    by (auto simp: add_embeddings_points QdrantIndex_init_def enumerate_keys split: if_splits)
  then show ?thesis
    using ls ne t len by (auto simp: rag SimpleRAG_init_defaults_def SimpleRAG_init_def)
qed

lemma build_succeeds:
  assumes emb: "load_embedder w ''sentence-transformers/paraphrase-MiniLM-L6-v2'' tok = Inr emb"
    and ls: "listdir w dir = Inr names"
    and ne: "filter is_txt names \<noteq> []"
    and ok: "\<forall>f \<in> set (filter is_txt names).
               \<exists>c v. read_file w dir f = Inr c \<and> emb c = Inr v \<and> length v = d"
  shows "\<exists>rag. create_simple_rag w dir key url tok m t p mt = Inr (Some rag)"
proof -
  let ?p0 = "DocumentProcessor_init dir emb"
  have "\<forall>f \<in> set (filter is_txt names).
      \<exists>c v. read_file w (documents_dir ?p0) f = Inr c \<and> embedder ?p0 c = Inr v \<and> length v = d"
    using ok by (simp add: DocumentProcessor_init_def)
  from process_files_total [OF this] obtain proc vs where
    pf: "process_files w names ?p0 = (None, proc)" and
    e: "document_embeddings proc = vs" and
    dims: "list_all (\<lambda>v. length v = d) vs"
    by (auto simp: DocumentProcessor_init_def)
  from process_files_appends [OF pf] have
    t: "document_titles proc = filter is_txt names" and
    len: "length vs = length (filter is_txt names)"
    using e by (auto simp: DocumentProcessor_init_def dest: list_all2_lengthD)
  from len ne obtain v0 rest where vs: "vs = v0 # rest" by (cases vs) auto
  have pd: "process_documents w ?p0 = (None, proc)"
    using ls pf e vs by (simp add: process_documents_def DocumentProcessor_init_def)
  have fd: "first_dimension (document_embeddings proc) = Inr d"
    using e vs dims by (simp add: first_dimension_def)
  have "list_all (\<lambda>pt. length (fst pt) = d) (zip vs (document_titles proc))"
    using dims by (auto simp: list_all_iff dest: set_zip_leftD)
  then have "\<exists>idx. add_embeddings (QdrantIndex_init d) (document_embeddings proc) (document_titles proc) = Inr idx"
    by (simp add: add_embeddings_points e QdrantIndex_init_def)
  then show ?thesis
    using emb pd fd by (auto simp: create_simple_rag_def)
qed

text \<open>
  C9. When \<open>create_simple_rag\<close> returns an orchestrator, the directory listing holds at
  least one \<open>.txt\<close> file, the processor's titles are exactly the \<open>.txt\<close> files of the
  listing, there are as many embeddings, and the index holds exactly that many
  points, numbered from 0, whose titles are those files. It does return an
  orchestrator when the embedder loads, the listing holds a \<open>.txt\<close> file, and every
  \<open>.txt\<close> file can be read and embedded into a vector of one common dimension.
\<close>

theorem build_counts:
  "(create_simple_rag w dir key url tok m t p mt = Inr (Some rag) \<longrightarrow>
      (\<exists>names. listdir w dir = Inr names \<and> filter is_txt names \<noteq> []
         \<and> document_titles (processor rag) = filter is_txt names
         \<and> length (document_embeddings (processor rag)) = length (filter is_txt names)
         \<and> length (points (index rag)) = length (filter is_txt names)
         \<and> map fst (points (index rag)) = [0..<length (filter is_txt names)]
         \<and> map (\<lambda>pt. snd (snd pt)) (points (index rag)) = filter is_txt names))
   \<and> (load_embedder w ''sentence-transformers/paraphrase-MiniLM-L6-v2'' tok = Inr emb
        \<and> listdir w dir = Inr names' \<and> filter is_txt names' \<noteq> []
        \<and> (\<forall>f \<in> set (filter is_txt names').
              \<exists>c v. read_file w dir f = Inr c \<and> emb c = Inr v \<and> length v = d)
      \<longrightarrow> (\<exists>r. create_simple_rag w dir key url tok m t p mt = Inr (Some r)))"
proof (intro conjI impI)
  assume "create_simple_rag w dir key url tok m t p mt = Inr (Some rag)"
  from build_result_counts [OF this] obtain names where
    ls: "listdir w dir = Inr names" and ne: "filter is_txt names \<noteq> []" and
    t: "document_titles (processor rag) = filter is_txt names" and
    len: "length (document_embeddings (processor rag)) = length (filter is_txt names)" and
    pts: "points (index rag)
         = enumerate 0 (zip (document_embeddings (processor rag)) (document_titles (processor rag)))"
    by blast
  have "map (\<lambda>pt. snd (snd pt)) (points (index rag)) = filter is_txt names"
    using len t by (simp add: pts enumerate_eq_zip map_snd_zip_take flip: map_map [unfolded comp_def])
  moreover have "map fst (points (index rag)) = [0..<length (filter is_txt names)]"
    using len t by (simp add: pts enumerate_keys)
  moreover have "length (points (index rag)) = length (filter is_txt names)"
    using len t by (simp add: pts)
  ultimately show "\<exists>names. listdir w dir = Inr names \<and> filter is_txt names \<noteq> []
         \<and> document_titles (processor rag) = filter is_txt names
         \<and> length (document_embeddings (processor rag)) = length (filter is_txt names)
         \<and> length (points (index rag)) = length (filter is_txt names)
         \<and> map fst (points (index rag)) = [0..<length (filter is_txt names)]
         \<and> map (\<lambda>pt. snd (snd pt)) (points (index rag)) = filter is_txt names"
    using ls ne t len by blast
next
  assume "load_embedder w ''sentence-transformers/paraphrase-MiniLM-L6-v2'' tok = Inr emb
        \<and> listdir w dir = Inr names' \<and> filter is_txt names' \<noteq> []
        \<and> (\<forall>f \<in> set (filter is_txt names').
              \<exists>c v. read_file w dir f = Inr c \<and> emb c = Inr v \<and> length v = d)"
  then show "\<exists>r. create_simple_rag w dir key url tok m t p mt = Inr (Some r)"
    using build_succeeds [of w tok emb dir names' d key url m t p mt] by blast
qed

text \<open>The build over \<open>docs\<close>: two text files among three files.\<close>

theorem build_counts_witness:
  "create_simple_rag (demo_world ConnectionFailure) ''docs'' ''key'' ''http://localhost:11434/api/chat''
      ''tok'' ''mistral'' (7 / 10) (1 / 2) 3000 = Inr (Some demo_rag)
   \<and> listdir (demo_world ConnectionFailure) ''docs'' = Inr [''a.txt'', ''notes.md'', ''b.txt'']
   \<and> filter is_txt [''a.txt'', ''notes.md'', ''b.txt''] = [''a.txt'', ''b.txt'']
   \<and> length (document_titles (processor demo_rag)) = 2
   \<and> length (points (index demo_rag)) = 2
   \<and> (\<exists>r. create_simple_rag (demo_world ConnectionFailure) ''docs'' ''k'' ''u'' ''t'' ''m'' 0 1 1
            = Inr (Some r))"
proof -
  have ls: "listdir (demo_world ConnectionFailure) ''docs'' = Inr [''a.txt'', ''notes.md'', ''b.txt'']"
    by (simp add: demo_defs)
  have fl: "filter is_txt [''a.txt'', ''notes.md'', ''b.txt''] = [''a.txt'', ''b.txt'']"
    by (simp add: is_txt_def endswith_def)
  have "\<exists>names. listdir (demo_world ConnectionFailure) ''docs'' = Inr names
         \<and> length (document_titles (processor demo_rag)) = length (filter is_txt names)
         \<and> length (points (index demo_rag)) = length (filter is_txt names)"
    using build_counts [of "demo_world ConnectionFailure" "''docs''" "''key''"
        "''http://localhost:11434/api/chat''" "''tok''" "''mistral''" "7 / 10" "1 / 2" 3000 demo_rag]
      demo_build [of ConnectionFailure]
    by auto
  with ls fl have counts: "length (document_titles (processor demo_rag)) = 2
     \<and> length (points (index demo_rag)) = 2"
    by auto
  have emb: "load_embedder (demo_world ConnectionFailure)
      ''sentence-transformers/paraphrase-MiniLM-L6-v2'' ''t'' = Inr demo_embedder"
    by (simp add: demo_world_def)
  have ok: "\<forall>f \<in> set (filter is_txt [''a.txt'', ''notes.md'', ''b.txt'']).
      \<exists>c v. read_file (demo_world ConnectionFailure) ''docs'' f = Inr c
        \<and> demo_embedder c = Inr v \<and> length v = 2"
    unfolding fl by (simp add: demo_defs)
  have "\<exists>r. create_simple_rag (demo_world ConnectionFailure) ''docs'' ''k'' ''u'' ''t'' ''m'' 0 1 1
            = Inr (Some r)"
    using build_counts [of "demo_world ConnectionFailure" "''docs''" "''k''" "''u''" "''t''" "''m''" 0 1 1
        demo_rag demo_embedder "[''a.txt'', ''notes.md'', ''b.txt'']" 2] emb ls ok fl
    by simp
  with counts ls fl demo_build [of ConnectionFailure] show ?thesis by simp
qed

section \<open>A rebuild that fails\<close>

text \<open>
  A rebuild whose processing fails: in \<open>other\<close> the second file cannot be decoded. The
  call returns without an exception, the processor's directory is the new one and its
  titles have grown by the file processed before the failure.
\<close>

theorem update_documents_failure_counterexample:
  "fst (process_documents (demo_world ConnectionFailure)
          ((processor demo_rag)\<lparr>documents_dir := ''other''\<rparr>)) = Some UnicodeDecodeError
   \<and> fst (update_documents (demo_world ConnectionFailure) demo_rag ''other'') = None
   \<and> documents_dir (processor (snd (update_documents (demo_world ConnectionFailure) demo_rag ''other'')))
       = ''other''
   \<and> document_titles (processor (snd (update_documents (demo_world ConnectionFailure) demo_rag ''other'')))
       = [''a.txt'', ''b.txt'', ''c.txt'']
   \<and> \<not> (fst (update_documents (demo_world ConnectionFailure) demo_rag ''other'') = Some UnicodeDecodeError
        \<and> documents_dir (processor (snd (update_documents (demo_world ConnectionFailure) demo_rag ''other'')))
            = documents_dir (processor demo_rag)
        \<and> document_titles (processor (snd (update_documents (demo_world ConnectionFailure) demo_rag ''other'')))
            = document_titles (processor demo_rag)
        \<and> document_embeddings (processor (snd (update_documents (demo_world ConnectionFailure) demo_rag ''other'')))
            = document_embeddings (processor demo_rag)
        \<and> index (snd (update_documents (demo_world ConnectionFailure) demo_rag ''other'')) = index demo_rag)"
  by (simp add: demo_defs build_defs)

text \<open>
  C3, amended. When document processing fails during \<open>update_documents\<close>, the index is
  left as it was; a \<open>ValueError\<close> (a decoding error is one) is caught and the call
  returns normally, and any other exception reaches the caller.
\<close>

theorem update_documents_failure:
  assumes "process_documents w ((processor rag)\<lparr>documents_dir := new_documents_dir\<rparr>) = (Some e, p')"
  shows "fst (update_documents w rag new_documents_dir)
       = (if isinstance_ValueError e then None else Some e)
     \<and> index (snd (update_documents w rag new_documents_dir)) = index rag"
  using assms by (simp add: update_documents_def)

text \<open>A rebuild over a directory that does not exist: the \<open>OSError\<close> reaches the caller.\<close>

theorem update_documents_failure_witness:
  "process_documents (demo_world ConnectionFailure) ((processor demo_rag)\<lparr>documents_dir := ''missing''\<rparr>)
     = (Some (OSError ''No such file or directory''), (processor demo_rag)\<lparr>documents_dir := ''missing''\<rparr>)
   \<and> fst (update_documents (demo_world ConnectionFailure) demo_rag ''missing'')
       = Some (OSError ''No such file or directory'')
   \<and> index (snd (update_documents (demo_world ConnectionFailure) demo_rag ''missing'')) = demo_index"
proof -
  have run: "process_documents (demo_world ConnectionFailure) ((processor demo_rag)\<lparr>documents_dir := ''missing''\<rparr>)
     = (Some (OSError ''No such file or directory''), (processor demo_rag)\<lparr>documents_dir := ''missing''\<rparr>)"
    by (simp add: demo_defs process_documents_def)
  have "index demo_rag = demo_index" by (simp add: demo_rag_def)
  with update_documents_failure [OF run] run show ?thesis by simp
qed

section \<open>The generation prompt\<close>

text \<open>The loop of \<open>retrieve\<close> appends, to what it starts from, each text and a newline.\<close>

lemma read_titles_content:
  "read_titles w dir titles acc = Inr content \<Longrightarrow>
   \<exists>texts. list_all2 (\<lambda>title text. read_file w dir title = Inr text) titles texts
     \<and> content = acc @ concat (map (\<lambda>text. text @ newline) texts)"
proof (induction titles arbitrary: acc)
  case Nil
  then show ?case by simp
next
  case (Cons title titles)
  from Cons.prems obtain body where
    rd: "read_file w dir title = Inr body" and
    rest: "read_titles w dir titles (acc @ body @ newline) = Inr content"
    by (auto split: sum.splits)
  from Cons.IH [OF rest] obtain texts where
    "list_all2 (\<lambda>title text. read_file w dir title = Inr text) titles texts"
    "content = (acc @ body @ newline) @ concat (map (\<lambda>text. text @ newline) texts)"
    by blast
  with rd have "list_all2 (\<lambda>title text. read_file w dir title = Inr text) (title # titles) (body # texts)
     \<and> content = acc @ concat (map (\<lambda>text. text @ newline) (body # texts))"
    by simp
  then show ?case by blast
qed

text \<open>
  With two retrieved documents the prompt of the code has a newline after each text,
  so an empty line precedes the closing line; the prompt with the texts separated by
  newlines has none.
\<close>

theorem answer_prompt_counterexample:
  "retrieve (demo_world ConnectionFailure) demo_rag ''cats''
     = Inr (''cats'' @ newline @ ''rockets'' @ newline, [''a.txt'', ''b.txt''])
   \<and> read_file (demo_world ConnectionFailure) (documents_dir (processor demo_rag)) ''a.txt'' = Inr ''cats''
   \<and> read_file (demo_world ConnectionFailure) (documents_dir (processor demo_rag)) ''b.txt'' = Inr ''rockets''
   \<and> build_prompt ''cats'' (''cats'' @ newline @ ''rockets'' @ newline)
       = ''Based on the following documents:'' @ newline @ ''cats'' @ newline @ ''rockets'' @ newline
           @ newline @ ''Answer the query: cats''
   \<and> spec_prompt [''cats'', ''rockets''] ''cats''
       = ''Based on the following documents:'' @ newline @ ''cats'' @ newline @ ''rockets''
           @ newline @ ''Answer the query: cats''
   \<and> build_prompt ''cats'' (''cats'' @ newline @ ''rockets'' @ newline)
       \<noteq> spec_prompt [''cats'', ''rockets''] ''cats''"
  by (simp add: demo_retrieve build_prompt_def spec_prompt_def newline_def)
    (simp add: demo_defs)

text \<open>
  C8, amended. When retrieval succeeds, the retrieved content is the text of each
  retrieved title, read from the processor's directory in ranked order, each followed
  by a newline. The request of \<open>generate_response\<close> goes to the configured URL with the
  orchestrator's model and sampling parameters, the fixed system message, and the user
  message "Based on the following documents:", newline, the content, newline,
  "Answer the query: " and the query.
\<close>

theorem answer_prompt:
  assumes "retrieve w rag query = Inr (content, titles)"
  shows "(\<exists>texts.
            list_all2 (\<lambda>title text. read_file w (documents_dir (processor rag)) title = Inr text)
              titles texts
            \<and> content = concat (map (\<lambda>text. text @ newline) texts))
     \<and> generate_response w rag query content =
         except_Exception_return_None
           (case RequestSender_send w (api_url rag)
                   [(''Content-Type'', ''application/json''), (''api-key'', api_key rag)]
                   \<lparr>payload_model = model rag,
                    payload_messages =
                      [(''system'', ''You are a helpful assistant named DocumentFinder''),
                       (''user'',
                        ''Based on the following documents:'' @ newline @ content @ newline
                          @ ''Answer the query: '' @ query)],
                    payload_temperature = temperature rag,
                    payload_top_p = top_p rag,
                    payload_max_tokens = max_tokens rag,
                    payload_stream = False\<rparr> of
              Inl e \<Rightarrow> Inl e
            | Inr response \<Rightarrow>
                (case getitem response ''message'' of
                   Inl e \<Rightarrow> Inl e
                 | Inr message \<Rightarrow> getitem message ''content''))"
proof -
  from assms obtain qe where
    "read_titles w (documents_dir (processor rag)) titles [] = Inr content"
    by (auto simp: retrieve_def split: sum.splits)
  from read_titles_content [OF this] have
    "\<exists>texts. list_all2 (\<lambda>title text. read_file w (documents_dir (processor rag)) title = Inr text)
              titles texts
            \<and> content = concat (map (\<lambda>text. text @ newline) texts)"
    by simp
  moreover have "generate_response w rag query content = except_Exception_return_None
           (case RequestSender_send w (api_url rag)
                   [(''Content-Type'', ''application/json''), (''api-key'', api_key rag)]
                   \<lparr>payload_model = model rag,
                    payload_messages =
                      [(''system'', ''You are a helpful assistant named DocumentFinder''),
                       (''user'',
                        ''Based on the following documents:'' @ newline @ content @ newline
                          @ ''Answer the query: '' @ query)],
                    payload_temperature = temperature rag,
                    payload_top_p = top_p rag,
                    payload_max_tokens = max_tokens rag,
                    payload_stream = False\<rparr> of
              Inl e \<Rightarrow> Inl e
            | Inr response \<Rightarrow>
                (case getitem response ''message'' of
                   Inl e \<Rightarrow> Inl e
                 | Inr message \<Rightarrow> getitem message ''content''))"
    by (simp add: generate_response_def EndPoint_send_def EndPoint_init_def create_payload_def
        build_prompt_def)
  ultimately show ?thesis by blast
qed

text \<open>A query answered by an endpoint that replies with a message.\<close>

theorem answer_prompt_witness:
  "retrieve (demo_world (HttpResponse 200 (Some (PDict [(''message'', PDict [(''content'', PStr ''meow'')])]))))
      demo_rag ''cats''
     = Inr (''cats'' @ newline @ ''rockets'' @ newline, [''a.txt'', ''b.txt''])
   \<and> generate_response (demo_world (HttpResponse 200 (Some (PDict [(''message'', PDict [(''content'', PStr ''meow'')])]))))
       demo_rag ''cats'' (''cats'' @ newline @ ''rockets'' @ newline)
     = Inr (PStr ''meow'')"
  using answer_prompt [OF demo_retrieve [of "HttpResponse 200 (Some (PDict [(''message'', PDict [(''content'', PStr ''meow'')])]))"]]
    demo_retrieve [of "HttpResponse 200 (Some (PDict [(''message'', PDict [(''content'', PStr ''meow'')])]))"]
  by (simp add: RequestSender_send_def demo_world_def except_Exception_return_None_def)

section \<open>Searching\<close>







end
